theory Spec2Isabelle
  imports Main "HOL-Library.Word" "HOL-Library.Sublist"
begin

section \<open>Strings\<close>

text \<open>
  A JavaScript string is modelled as a \<^typ>\<open>string\<close>, read as its UTF-8 encoding.
  The code compares strings, concatenates them and splits one at its first \<open>=\<close>;
  all of these agree on the encoding, since the byte of an ASCII character never
  occurs inside the encoding of another character.

  \<open>String.prototype.toLowerCase\<close> and \<open>toUpperCase\<close> follow the Unicode case
  mappings, which are not defined here: the two methods are parameters, the fields of
  a \<open>StringMethods\<close>. \<open>asciiStrings\<close> converts the ASCII letters only; it agrees
  with the platform's methods on ASCII strings and is used for the concrete runs.

  \<open>indexOf\<close> returns \<open>-1\<close> when the character does not occur, and \<open>substring\<close>
  clamps its two indices to the string and swaps them when they are out of order, as
  the JavaScript methods do.
\<close>

type_synonym byte = "8 word"

record StringMethods =
  toLowerCase :: "string \<Rightarrow> string"
  toUpperCase :: "string \<Rightarrow> string"

definition isUpperChar :: "char \<Rightarrow> bool" where
  "isUpperChar c = (65 \<le> (of_char c :: nat) \<and> (of_char c :: nat) \<le> 90)"

definition lowerChar :: "char \<Rightarrow> char" where
  "lowerChar c =
     (let n = (of_char c :: nat) in if 65 \<le> n \<and> n \<le> 90 then char_of (n + 32) else c)"

definition upperChar :: "char \<Rightarrow> char" where
  "upperChar c =
     (let n = (of_char c :: nat) in if 97 \<le> n \<and> n \<le> 122 then char_of (n - 32) else c)"

definition asciiLowerCase :: "string \<Rightarrow> string" where
  "asciiLowerCase s = map lowerChar s"

definition asciiUpperCase :: "string \<Rightarrow> string" where
  "asciiUpperCase s = map upperChar s"

definition asciiStrings :: StringMethods where
  "asciiStrings = \<lparr> toLowerCase = asciiLowerCase, toUpperCase = asciiUpperCase \<rparr>"

fun indexOf :: "string \<Rightarrow> char \<Rightarrow> int" where
  "indexOf [] c = - 1"
| "indexOf (x # xs) c =
     (if x = c then 0 else (let i = indexOf xs c in if i < 0 then - 1 else i + 1))"

definition substring :: "string \<Rightarrow> int \<Rightarrow> int \<Rightarrow> string" where
  "substring s start stop =
     (let len = int (length s);
          a = max 0 (min start len);
          b = max 0 (min stop len);
          lo = min a b;
          hi = max a b
      in take (nat (hi - lo)) (drop (nat lo) s))"

definition substringFrom :: "string \<Rightarrow> int \<Rightarrow> string" where
  "substringFrom s start = substring s start (int (length s))"

section \<open>Application metadata\<close>

text \<open>
  \<open>RuntimeInput\<close>, \<open>RuntimeRoute\<close>, \<open>RuntimeController\<close> and \<open>RuntimeApp\<close> with the
  fields the two adapters read. The route's \<open>method\<close> field is called \<open>httpMethod\<close>
  here. The schemas of the app are only handed on to the validator, so their type is
  a parameter.
\<close>

record RuntimeInput =
  location :: string
  name :: string
  declaredTypeName :: string
  required :: "bool option"

record RuntimeRoute =
  httpMethod :: string
  path :: string
  inputs :: "RuntimeInput list"

record RuntimeController =
  className :: string
  moduleName :: string
  ctorEnvNames :: "string list"
  initMethodName :: "string option"
  routes :: "RuntimeRoute list"

record 's RuntimeApp =
  controllers :: "RuntimeController list"
  schemas :: 's

section \<open>The event-object extractor (awsLambdaRuntime.ts)\<close>

text \<open>
  The gateway event with the fields \<open>LambdaExtractor.extract\<close> and the handler read.
  An optional field is an \<^typ>\<open>'a option\<close>. Each of the three parameter objects is
  given by the map of its own properties; what it inherits from \<open>Object.prototype\<close>
  is added by the property read, \<open>lookupParam\<close> below.
\<close>

record Event =
  routeKey :: string
  queryStringParameters :: "(string \<rightharpoonup> string) option"
  pathParameters :: "(string \<rightharpoonup> string) option"
  headers :: "(string \<rightharpoonup> string) option"
  cookies :: "string list option"
  body :: "string option"
  isBase64Encoded :: bool

text \<open>
  What a \<open>throw\<close> carries: the runtime's \<open>HttpError\<close> with its status code and
  message, the \<open>SyntaxError\<close> of \<open>JSON.parse\<close>, a plain \<open>Error\<close> with its message,
  and the \<open>TypeError\<close> of a property read on \<open>undefined\<close> or of an invalid URL.
\<close>

datatype error = HttpError nat string | SyntaxError | Error string | TypeError

text \<open>
  What \<open>extract\<close> returns: \<open>undefined\<close>, a string, a \<open>Buffer\<close>, the event itself,
  whatever \<open>JSON.parse\<close> produced (of a type \<open>'j\<close> left open), or \<open>Inherited k\<close>:
  the member that a plain object inherits from \<open>Object.prototype\<close> under the name
  \<open>k\<close> (a function such as \<open>Object\<close> for \<open>constructor\<close>, or \<open>Object.prototype\<close>
  itself for \<open>__proto__\<close>).
\<close>

datatype 'j extracted =
    Undefined
  | Text string
  | Buffer "byte list"
  | Request Event
  | Parsed 'j
  | Inherited string

text \<open>The property names of \<open>Object.prototype\<close>.\<close>

definition objectPrototypeKeys :: "string list" where
  "objectPrototypeKeys =
     [''constructor'', ''__defineGetter__'', ''__defineSetter__'', ''hasOwnProperty'',
      ''__lookupGetter__'', ''__lookupSetter__'', ''isPrototypeOf'', ''propertyIsEnumerable'',
      ''toString'', ''valueOf'', ''__proto__'', ''toLocaleString'']"

definition inheritedOrUndefined :: "string \<Rightarrow> 'j extracted" where
  "inheritedOrUndefined k = (if k \<in> set objectPrototypeKeys then Inherited k else Undefined)"

text \<open>
  \<open>(params || {})[k]\<close>: an own property wins; without one, and also on the empty
  object that stands in for a missing \<open>params\<close>, the read goes to \<open>Object.prototype\<close>
  and gives \<open>undefined\<close> only when that has no member named \<open>k\<close> either.
\<close>

definition lookupParam :: "(string \<rightharpoonup> string) option \<Rightarrow> string \<Rightarrow> 'j extracted" where
  "lookupParam params k =
     (case (case params of None \<Rightarrow> Map.empty | Some m \<Rightarrow> m) k of
        None \<Rightarrow> inheritedOrUndefined k
      | Some v \<Rightarrow> Text v)"

text \<open>The loop over \<open>event.cookies\<close>; it returns at the first entry whose name matches.\<close>

fun findCookie :: "string list \<Rightarrow> string \<Rightarrow> 'j extracted" where
  "findCookie [] n = Undefined"
| "findCookie (cookie # rest) n =
     (let eqIdx = indexOf cookie CHR ''='' in
      if eqIdx > 0 then
        (let cname = substring cookie 0 eqIdx;
             cval = substringFrom cookie (eqIdx + 1)
         in if n = cname then Text cval else findCookie rest n)
      else findCookie rest n)"

text \<open>
  \<open>LambdaExtractor.extract\<close>. The platform functions it calls are parameters: the
  string methods \<open>S\<close>, \<open>parseJSON\<close> for \<open>JSON.parse\<close> (\<open>None\<close> when it throws its
  \<open>SyntaxError\<close>) and \<open>fromBase64\<close> for \<open>Buffer.from(_, 'base64')\<close>. The switch on
  the location keeps its default branch. An empty body string is falsy, like a
  missing one.
\<close>

definition LambdaExtractor_extract ::
  "StringMethods \<Rightarrow> (string \<Rightarrow> 'j option) \<Rightarrow> (string \<Rightarrow> byte list) \<Rightarrow> Event \<Rightarrow> RuntimeInput
     \<Rightarrow> error + 'j extracted" where
  "LambdaExtractor_extract S parseJSON fromBase64 event input =
     (if location input = ''request'' then Inr (Request event)
      else if location input = ''query'' then
        Inr (lookupParam (queryStringParameters event) (name input))
      else if location input = ''path'' then
        Inr (lookupParam (pathParameters event) (name input))
      else if location input = ''header'' then
        Inr (lookupParam (headers event) (toLowerCase S (name input)))
      else if location input = ''cookie'' then
        Inr (case cookies event of
               None \<Rightarrow> Undefined
             | Some cs \<Rightarrow> findCookie cs (name input))
      else if location input = ''body'' then
        (case body event of
           None \<Rightarrow> Inr Undefined
         | Some b \<Rightarrow>
             if b = [] then Inr Undefined
             else if declaredTypeName input = ''string'' then Inr (Text b)
             else if declaredTypeName input = ''Buffer'' then
               (if \<not> isBase64Encoded event
                then Inl (HttpError 400 ''Expected binary input'')
                else Inr (Buffer (fromBase64 b)))
             else (case parseJSON b of
                     None \<Rightarrow> Inl SyntaxError
                   | Some j \<Rightarrow> Inr (Parsed j)))
      else Inl (Error (''Unsupported param type: '' @ location input)))"

text \<open>
  The cookie rule in the words of the specification: an entry is split at its first
  \<open>=\<close> into the name before it and the text after it; the lookup returns the text of
  the first entry with the wanted name.
\<close>

definition splitCookie :: "string \<Rightarrow> (string \<times> string) option" where
  "splitCookie c =
     (if CHR ''='' \<in> set c
      then Some (takeWhile (\<lambda>x. x \<noteq> CHR ''='') c, tl (dropWhile (\<lambda>x. x \<noteq> CHR ''='') c))
      else None)"

definition cookieSpec :: "string list \<Rightarrow> string \<rightharpoonup> string" where
  "cookieSpec cs = map_of (List.map_filter splitCookie cs)"

text \<open>
  When an input is absent from the event: the parameter object is missing or has no
  entry under the name (the lower-cased name, for a header), no cookie entry starts
  with \<open>name=\<close>, the body is missing or empty. The request itself is never absent.
\<close>

definition absentInput :: "StringMethods \<Rightarrow> Event \<Rightarrow> RuntimeInput \<Rightarrow> bool" where
  "absentInput S event input =
     (if location input = ''query'' then
        (case queryStringParameters event of None \<Rightarrow> True | Some q \<Rightarrow> q (name input) = None)
      else if location input = ''path'' then
        (case pathParameters event of None \<Rightarrow> True | Some q \<Rightarrow> q (name input) = None)
      else if location input = ''header'' then
        (case headers event of
           None \<Rightarrow> True
         | Some h \<Rightarrow> h (toLowerCase S (name input)) = None)
      else if location input = ''cookie'' then
        (case cookies event of
           None \<Rightarrow> True
         | Some cs \<Rightarrow> \<not> list_ex (prefix (name input @ ''='')) cs)
      else if location input = ''body'' then
        (case body event of None \<Rightarrow> True | Some b \<Rightarrow> b = [])
      else False)"

section \<open>Results and their two serialisations\<close>

text \<open>
  A header or cookie value of a \<open>RuntimeResult\<close> is a string, a number or a boolean.
  A number is represented by what \<open>Number.prototype.toString\<close> prints for it (\<open>42\<close>,
  \<open>0.5\<close>, \<open>1e+21\<close>, \<open>NaN\<close>, \<open>Infinity\<close>; both zeros print \<open>0\<close>), so that
  \<open>toString\<close>, the conversion that \<open>.toString()\<close> and a template literal apply, and
  \<open>truthy\<close>, what \<open>!v\<close> negates, need no arithmetic: a number is falsy when it is a
  zero or \<open>NaN\<close>. The header object is a map; the cookie object is the list of its
  entries in enumeration order. The fields \<open>headers\<close>, \<open>cookies\<close> and \<open>body\<close> of the
  result are called \<open>resultHeaders\<close>, \<open>resultCookies\<close> and \<open>resultBody\<close>.
\<close>

datatype prim = PString string | PNumber string | PBoolean bool

datatype payload = TextBody string | BinaryBody "byte list"

record RuntimeResult =
  statusCode :: nat
  resultHeaders :: "string \<rightharpoonup> prim"
  resultCookies :: "(string \<times> prim) list"
  resultBody :: payload
  isBinary :: bool

fun toString :: "prim \<Rightarrow> string" where
  "toString (PString s) = s"
| "toString (PNumber printed) = printed"
| "toString (PBoolean b) = (if b then ''true'' else ''false'')"

fun truthy :: "prim \<Rightarrow> bool" where
  "truthy (PString s) = (s \<noteq> [])"
| "truthy (PNumber printed) = (printed \<noteq> ''0'' \<and> printed \<noteq> ''NaN'')"
| "truthy (PBoolean b) = b"

definition cookieLine :: "string \<times> prim \<Rightarrow> string" where
  "cookieLine c = fst c @ ''='' @ toString (snd c)"


subsection \<open>nodeRuntime.ts: writing onto the server response\<close>

datatype headerValue = Single string | Multi "string list"

record ServerResponse =
  writtenStatus :: nat
  writtenHeaders :: "string \<rightharpoonup> headerValue"
  writtenBody :: payload

text \<open>The table \<open>statusCodeToDesc\<close> of the runtime package is a parameter.\<close>

definition sendErrorResponse :: "(nat \<Rightarrow> string) \<Rightarrow> nat \<Rightarrow> ServerResponse" where
  "sendErrorResponse statusCodeToDesc code =
     \<lparr> writtenStatus = code,
       writtenHeaders = [''Content-Type'' \<mapsto> Single ''text/plain''],
       writtenBody = TextBody (statusCodeToDesc code) \<rparr>"

definition sendResultResponse :: "RuntimeResult \<Rightarrow> ServerResponse" where
  "sendResultResponse result =
     (let copied = (\<lambda>h. map_option (\<lambda>v. Single (toString v)) (resultHeaders result h));
          outgoing = (if \<not> (case resultHeaders result ''Content-Type'' of
                                None \<Rightarrow> False
                              | Some v \<Rightarrow> truthy v)
                      then copied(''Content-Type'' \<mapsto> Single ''application/json'')
                      else copied);
          cookieList = map cookieLine (resultCookies result);
          outgoing' = (if length cookieList > 0
                       then outgoing(''Set-Cookie'' \<mapsto> Multi cookieList)
                       else outgoing)
      in \<lparr> writtenStatus = statusCode result,
           writtenHeaders = outgoing',
           writtenBody = resultBody result \<rparr>)"

subsection \<open>awsLambdaRuntime.ts: the structured gateway result\<close>

record LambdaResult =
  lr_statusCode :: nat
  lr_headers :: "string \<rightharpoonup> prim"
  lr_cookies :: "string list"
  lr_body :: payload
  lr_isBase64Encoded :: bool

definition toLambdaCookies :: "(string \<times> prim) list \<Rightarrow> string list" where
  "toLambdaCookies cs = map cookieLine cs"

text \<open>
  \<open>toBase64\<close> is \<open>Buffer.prototype.toString('base64')\<close>, a parameter. On a body that
  is a string the call is \<open>String.prototype.toString\<close>, which returns the string.
\<close>

definition toLambdaResult :: "(byte list \<Rightarrow> string) \<Rightarrow> RuntimeResult \<Rightarrow> LambdaResult" where
  "toLambdaResult toBase64 result =
     \<lparr> lr_statusCode = statusCode result,
       lr_headers = resultHeaders result,
       lr_cookies = toLambdaCookies (resultCookies result),
       lr_body = (if isBinary result
                  then (case resultBody result of
                          BinaryBody bs \<Rightarrow> TextBody (toBase64 bs)
                        | TextBody s \<Rightarrow> TextBody s)
                  else resultBody result),
       lr_isBase64Encoded = isBinary result \<rparr>"

section \<open>The two adapters' routing\<close>

subsection \<open>awsLambdaRuntime.ts: createAwsLambdaHandler\<close>

text \<open>
  \<open>routesByPath\<close> is filled controller by controller and route by route; a later
  route with the same key overwrites an earlier one. The manager created for a
  controller is identified with that controller. \<open>processRequest\<close> of the runtime
  package is a parameter; it is given the event, the extractor built on the event, the
  route, the controller's manager and the validator's schemas.

  A route key with no entry gives \<open>routeInfo = undefined\<close>, and evaluating the
  argument \<open>routeInfo.route\<close> throws a \<open>TypeError\<close> before \<open>processRequest\<close> is
  called. (The table is the map of its own keys; a route key that names a member of
  \<open>Object.prototype\<close> is not covered.)
\<close>

record RouteInfo =
  controllerManager :: RuntimeController
  route :: RuntimeRoute

definition lambdaRouteKey :: "StringMethods \<Rightarrow> RuntimeRoute \<Rightarrow> string" where
  "lambdaRouteKey S r = toUpperCase S (httpMethod r) @ '' '' @ path r"

definition routesByPath :: "StringMethods \<Rightarrow> 's RuntimeApp \<Rightarrow> (string \<rightharpoonup> RouteInfo)" where
  "routesByPath S app =
     fold (\<lambda>controller tbl.
             fold (\<lambda>r tbl'. tbl'(lambdaRouteKey S r \<mapsto>
                                  \<lparr> controllerManager = controller, route = r \<rparr>))
                  (routes controller) tbl)
          (controllers app) Map.empty"

definition createAwsLambdaHandler ::
  "StringMethods \<Rightarrow> (string \<Rightarrow> 'j option) \<Rightarrow> (string \<Rightarrow> byte list) \<Rightarrow> (byte list \<Rightarrow> string) \<Rightarrow>
   (Event \<Rightarrow> (RuntimeInput \<Rightarrow> error + 'j extracted) \<Rightarrow> RuntimeRoute \<Rightarrow> RuntimeController \<Rightarrow> 's
      \<Rightarrow> error + RuntimeResult) \<Rightarrow>
   's RuntimeApp \<Rightarrow> Event \<Rightarrow> error + LambdaResult" where
  "createAwsLambdaHandler S parseJSON fromBase64 toBase64 processRequest app event =
     (case routesByPath S app (routeKey event) of
        None \<Rightarrow> Inl TypeError
      | Some routeInfo \<Rightarrow>
          (case processRequest event (LambdaExtractor_extract S parseJSON fromBase64 event)
                  (route routeInfo) (controllerManager routeInfo) (schemas app) of
             Inl e \<Rightarrow> Inl e
           | Inr result \<Rightarrow> Inr (toLambdaResult toBase64 result)))"

subsection \<open>nodeRuntime.ts: createRequestListener\<close>

text \<open>
  The listener up to the lookup of the matched route. What it calls outside the two
  source files is collected in \<open>NodeDeps\<close>: the table \<open>statusCodeToDesc\<close>, the path
  name that \<open>new URL\<close> computes (\<open>None\<close> when the constructor throws), the match of
  the \<open>RouteMatcher\<close> built from the registered route paths, and \<open>serveMatched\<close> for
  the rest of the listener once a route has matched (body reading, extraction,
  \<open>processRequest\<close> and the writing of its result).
\<close>

record IncomingMessage =
  url :: "string option"
  reqMethod :: "string option"
  reqHeaders :: "string \<rightharpoonup> string"

record RouteMatch =
  matchPath :: string
  matchParams :: "string \<rightharpoonup> string"

record 's NodeDeps =
  statusCodeToDesc :: "nat \<Rightarrow> string"
  URL_pathname :: "string \<Rightarrow> string option"
  RouteMatcher_match :: "string list \<Rightarrow> string \<Rightarrow> RouteMatch option"
  serveMatched :: "'s RuntimeApp \<Rightarrow> IncomingMessage \<Rightarrow> RouteMatch \<Rightarrow> error + ServerResponse"

definition registeredPaths :: "'s RuntimeApp \<Rightarrow> string list" where
  "registeredPaths app =
     concat (map (\<lambda>controller. map (\<lambda>r. httpMethod r @ ''/'' @ path r) (routes controller))
                 (controllers app))"

definition nodeRoutePath :: "StringMethods \<Rightarrow> IncomingMessage \<Rightarrow> string \<Rightarrow> string" where
  "nodeRoutePath S request pathname =
     (case reqMethod request of None \<Rightarrow> [] | Some m \<Rightarrow> toLowerCase S m) @ ''/'' @ pathname"

definition createRequestListener ::
  "StringMethods \<Rightarrow> 's NodeDeps \<Rightarrow> 's RuntimeApp \<Rightarrow> IncomingMessage \<Rightarrow> error + ServerResponse" where
  "createRequestListener S D app request =
     (case url request of
        None \<Rightarrow> Inr (sendErrorResponse (statusCodeToDesc D) 404)
      | Some u \<Rightarrow>
          if u = [] then Inr (sendErrorResponse (statusCodeToDesc D) 404)
          else
            (case URL_pathname D u of
               None \<Rightarrow> Inl TypeError
             | Some pathname \<Rightarrow>
                 (case RouteMatcher_match D (registeredPaths app)
                         (nodeRoutePath S request pathname) of
                    None \<Rightarrow> Inr (sendErrorResponse (statusCodeToDesc D) 404)
                  | Some routeMatch \<Rightarrow> serveMatched D app request routeMatch)))"

section \<open>The controller instance manager (nodeRuntime.ts)\<close>

text \<open>
  The manager's three fields, with a trace of the effects it has caused. The field
  \<open>module\<close> is \<open>moduleRef\<close> (set or not), the field \<open>instance\<close> is \<open>instanceRef\<close>: the
  object built by the \<open>i\<close>-th run of the constructor is identified by \<open>i\<close>.

  What the controller's own code does is given by a \<open>World\<close>: the process
  environment, whether the import resolves, whether the module exports the class,
  whether the \<open>i\<close>-th construction returns normally, and whether the promise of the
  init hook called on instance \<open>i\<close> resolves.
\<close>

datatype effect =
    Import string
  | Construct nat "string option list"
  | InitHook nat string

record World =
  processEnv :: "string \<rightharpoonup> string"
  importOk :: bool
  exportsClass :: bool
  ctorOk :: "nat \<Rightarrow> bool"
  initOk :: "nat \<Rightarrow> bool"

record ControllerInstanceManager =
  runtime :: RuntimeController
  moduleRef :: bool
  instanceRef :: "nat option"
  initialized :: bool
  trace :: "effect list"

definition newControllerInstanceManager :: "RuntimeController \<Rightarrow> ControllerInstanceManager" where
  "newControllerInstanceManager rt =
     \<lparr> runtime = rt, moduleRef = False, instanceRef = None,
       initialized = (initMethodName rt = None), trace = [] \<rparr>"

fun isConstruct :: "effect \<Rightarrow> bool" where
  "isConstruct (Construct i args) = True"
| "isConstruct e = False"

fun isInitHook :: "effect \<Rightarrow> bool" where
  "isInitHook (InitHook i hook) = True"
| "isInitHook e = False"

definition constructions :: "ControllerInstanceManager \<Rightarrow> nat" where
  "constructions m = length (filter isConstruct (trace m))"

definition initRuns :: "ControllerInstanceManager \<Rightarrow> nat" where
  "initRuns m = length (filter isInitHook (trace m))"

text \<open>
  A call of \<open>getInstance\<close> is a task that runs without interruption from one
  \<open>await\<close> to the next; other tasks may run in between. Its control points:
  \<^item> \<open>Called\<close>: the call has been made;
  \<^item> \<open>AwaitImport\<close>: \<open>loadModule\<close> waits for \<open>import(moduleName)\<close>;
  \<^item> \<open>AwaitLoadModule\<close>: \<open>getClass\<close> waits for \<open>loadModule()\<close>;
  \<^item> \<open>AwaitGetClass\<close>: \<open>getInstance\<close> waits for \<open>getClass()\<close>;
  \<^item> \<open>AwaitInit i\<close>: \<open>getInstance\<close> waits for the init hook it called on instance \<open>i\<close>;
  \<^item> \<open>Finished\<close>: the promise of the call is settled, with the value of
    \<open>this.instance\<close> at the \<open>return\<close> or with what was thrown.
  The constructor arguments are computed before the first \<open>await\<close> and carried along.
  A rejected import is passed on to the caller at once.
\<close>

datatype fault = ImportFailed | NotAConstructor | ConstructorThrew | InitHookFailed | NoInitMethod

datatype outcome = Returned "nat option" | Threw fault

datatype pc =
    Called
  | AwaitImport "string option list"
  | AwaitLoadModule "string option list"
  | AwaitGetClass "string option list"
  | AwaitInit nat
  | Finished outcome

fun getInstance_step ::
  "World \<Rightarrow> ControllerInstanceManager \<Rightarrow> pc \<Rightarrow> ControllerInstanceManager \<times> pc" where
  "getInstance_step w m Called =
     (case instanceRef m of
        Some i \<Rightarrow> (m, Finished (Returned (Some i)))
      | None \<Rightarrow>
          (let args = map (processEnv w) (ctorEnvNames (runtime m)) in
           if \<not> moduleRef m
           then (m\<lparr>trace := trace m @ [Import (moduleName (runtime m))]\<rparr>, AwaitImport args)
           else (m, AwaitLoadModule args)))"
| "getInstance_step w m (AwaitImport args) =
     (if importOk w then (m\<lparr>moduleRef := True\<rparr>, AwaitLoadModule args)
      else (m, Finished (Threw ImportFailed)))"
| "getInstance_step w m (AwaitLoadModule args) = (m, AwaitGetClass args)"
| "getInstance_step w m (AwaitGetClass args) =
     (if \<not> exportsClass w then (m, Finished (Threw NotAConstructor))
      else
        (let i = constructions m;
             m1 = m\<lparr>trace := trace m @ [Construct i args]\<rparr>
         in if \<not> ctorOk w i then (m1, Finished (Threw ConstructorThrew))
            else
              (let m2 = m1\<lparr>instanceRef := Some i\<rparr> in
               if \<not> initialized m2 then
                 (case initMethodName (runtime m2) of
                    None \<Rightarrow> (m2, Finished (Threw NoInitMethod))
                  | Some hook \<Rightarrow>
                      (m2\<lparr>trace := trace m2 @ [InitHook i hook]\<rparr>, AwaitInit i))
               else (m2, Finished (Returned (instanceRef m2))))))"
| "getInstance_step w m (AwaitInit i) =
     (if initOk w i then
        (let m1 = m\<lparr>initialized := True\<rparr> in (m1, Finished (Returned (instanceRef m1))))
      else (m, Finished (Threw InitHookFailed)))"
| "getInstance_step w m (Finished r) = (m, Finished r)"

text \<open>
  One call awaited to its end with no other task in between: at most five steps
  lead from \<open>Called\<close> to \<open>Finished\<close>.
\<close>

fun resume ::
  "nat \<Rightarrow> World \<Rightarrow> ControllerInstanceManager \<times> pc \<Rightarrow> ControllerInstanceManager \<times> pc" where
  "resume 0 w s = s"
| "resume (Suc k) w s = resume k w (getInstance_step w (fst s) (snd s))"

definition getInstance ::
  "World \<Rightarrow> ControllerInstanceManager \<Rightarrow> ControllerInstanceManager \<times> pc" where
  "getInstance w m = resume 5 w (m, Called)"

text \<open>
  Several calls on one manager: a schedule names, step by step, the task that runs
  next to its following \<open>await\<close>.
\<close>

definition schedStep ::
  "World \<Rightarrow> nat \<Rightarrow> ControllerInstanceManager \<times> pc list \<Rightarrow> ControllerInstanceManager \<times> pc list" where
  "schedStep w i s =
     (if i < length (snd s)
      then (let r = getInstance_step w (fst s) (snd s ! i) in (fst r, (snd s)[i := snd r]))
      else s)"

definition runSchedule ::
  "World \<Rightarrow> nat list \<Rightarrow> ControllerInstanceManager \<times> pc list
     \<Rightarrow> ControllerInstanceManager \<times> pc list" where
  "runSchedule w sched s = fold (schedStep w) sched s"

section \<open>A small application for concrete runs\<close>

definition usersRoute :: RuntimeRoute where
  "usersRoute = \<lparr> httpMethod = ''get'', path = ''/users'', inputs = [] \<rparr>"

definition usersController :: RuntimeController where
  "usersController =
     \<lparr> className = ''Users'', moduleName = ''./users'', ctorEnvNames = [''TABLE''],
       initMethodName = Some ''init'', routes = [usersRoute] \<rparr>"

definition usersApp :: "unit RuntimeApp" where
  "usersApp = \<lparr> controllers = [usersController], schemas = () \<rparr>"

definition okWorld :: World where
  "okWorld =
     \<lparr> processEnv = [''TABLE'' \<mapsto> ''t1''], importOk = True, exportsClass = True,
       ctorOk = (\<lambda>i. True), initOk = (\<lambda>i. True) \<rparr>"

definition emptyEvent :: Event where
  "emptyEvent =
     \<lparr> routeKey = ''GET /users'', queryStringParameters = None, pathParameters = None,
       headers = None, cookies = None, body = None, isBase64Encoded = False \<rparr>"

definition sessionEvent :: Event where
  "sessionEvent =
     emptyEvent\<lparr> queryStringParameters := Some [''page'' \<mapsto> ''2''],
       headers := Some [''x-trace'' \<mapsto> ''t-1''],
       cookies := Some [''sid=abc'', ''theme=dark''],
       body := Some [] \<rparr>"

text \<open>
  Dependencies for concrete runs of the listener: a matcher that knows literal paths
  only, and a URL whose path name is the request target itself.
\<close>

definition literalDeps :: "unit NodeDeps" where
  "literalDeps =
     \<lparr> statusCodeToDesc = (\<lambda>code. if code = 404 then ''Not Found'' else ''Error''),
       URL_pathname = (\<lambda>u. Some u),
       RouteMatcher_match =
         (\<lambda>registered p. if p \<in> set registered
                          then Some \<lparr> matchPath = p, matchParams = Map.empty \<rparr> else None),
       serveMatched = (\<lambda>app request routeMatch. Inl (Error ''not modelled'')) \<rparr>"

definition okResult :: RuntimeResult where
  "okResult =
     \<lparr> statusCode = 200, resultHeaders = [''X-Test'' \<mapsto> PString ''1''], resultCookies = [],
       resultBody = TextBody ''ok'', isBinary = False \<rparr>"

section \<open>Facts about the string helpers\<close>

lemma lowerChar_not_upper: "\<not> isUpperChar (lowerChar c)"
  by (simp add: lowerChar_def isUpperChar_def Let_def)

lemma lowerChar_idem: "lowerChar (lowerChar c) = lowerChar c"
  by (simp add: lowerChar_def Let_def)

lemma asciiLowerCase_no_upper: "\<not> list_ex isUpperChar (asciiLowerCase s)"
  by (simp add: asciiLowerCase_def list_ex_iff lowerChar_not_upper)

lemma asciiLowerCase_idem: "asciiLowerCase (asciiLowerCase s) = asciiLowerCase s"
  by (simp add: asciiLowerCase_def lowerChar_idem)

lemma asciiStrings_idem: "toLowerCase asciiStrings (toLowerCase asciiStrings s) = toLowerCase asciiStrings s"
  by (simp add: asciiStrings_def asciiLowerCase_idem)

lemma indexOf_neg: "indexOf s c < 0 \<longleftrightarrow> c \<notin> set s"
  by (induction s) (auto simp: Let_def)

lemma indexOf_takeWhile:
  "c \<in> set s \<Longrightarrow> indexOf s c = int (length (takeWhile (\<lambda>x. x \<noteq> c) s))"
  by (induction s) (auto simp: Let_def indexOf_neg)

lemma substring_prefix: "0 \<le> i \<Longrightarrow> substring s 0 i = take (nat i) s"
  by (auto simp: substring_def Let_def min_def max_def)

lemma substringFrom_drop: "0 \<le> i \<Longrightarrow> substringFrom s i = drop (nat i) s"
  by (auto simp: substringFrom_def substring_def Let_def min_def max_def)

lemma take_length_takeWhile: "take (length (takeWhile Q s)) s = takeWhile Q s"
  by (induction s) auto

lemma drop_Suc_length_takeWhile: "drop (Suc (length (takeWhile Q s))) s = tl (dropWhile Q s)"
  by (induction s) (auto simp: drop_Suc)

text \<open>Case conversion on the names used in the concrete runs below.\<close>

lemma asciiLowerCase_X_Missing: "asciiLowerCase ''X-Missing'' = ''x-missing''"
  by code_simp

lemma asciiLowerCase_X_Trace: "asciiLowerCase ''X-Trace'' = ''x-trace''"
  by code_simp

lemma asciiLowerCase_x_TRACE: "asciiLowerCase ''x-TRACE'' = ''x-trace''"
  by code_simp

lemma asciiLowerCase_Constructor: "asciiLowerCase ''Constructor'' = ''constructor''"
  by code_simp

lemma asciiLowerCase_GET: "asciiLowerCase ''GET'' = ''get''"
  by code_simp

lemma asciiUpperCase_get: "asciiUpperCase ''get'' = ''GET''"
  by code_simp

lemma constructor_inherited: "inheritedOrUndefined ''constructor'' = Inherited ''constructor''"
  by (simp add: inheritedOrUndefined_def objectPrototypeKeys_def)

section \<open>The cookie loop against the split-at-first-equals rule\<close>

text \<open>
  One round of the loop, read through \<open>splitCookie\<close>: the guard \<open>eqIdx > 0\<close> lets an
  entry count only when it has an \<open>=\<close> and a non-empty name before it.
\<close>

lemma findCookie_step:
  "findCookie (c # rest) n =
     (case splitCookie c of
        None \<Rightarrow> findCookie rest n
      | Some (k, v) \<Rightarrow> if k \<noteq> [] \<and> n = k then Text v else findCookie rest n)"
proof (cases "CHR ''='' \<in> set c")
  case False
  then have "indexOf c CHR ''='' < 0" by (simp add: indexOf_neg)
  with False show ?thesis by (simp add: splitCookie_def Let_def)
next
  case True
  let ?k = "takeWhile (\<lambda>x. x \<noteq> CHR ''='') c"
  have idx: "indexOf c CHR ''='' = int (length ?k)" using True by (rule indexOf_takeWhile)
  have pos: "indexOf c CHR ''='' > 0 \<longleftrightarrow> ?k \<noteq> []" by (simp add: idx)
  have nm: "substring c 0 (indexOf c CHR ''='') = ?k"
    by (simp add: idx substring_prefix take_length_takeWhile)
  have vl: "substringFrom c (indexOf c CHR ''='' + 1) = tl (dropWhile (\<lambda>x. x \<noteq> CHR ''='') c)"
    using drop_Suc_length_takeWhile[of "\<lambda>x. x \<noteq> CHR ''=''" c]
    by (simp add: idx substringFrom_drop nat_add_distrib)
  show ?thesis
    using True pos nm vl by (auto simp: splitCookie_def Let_def)
qed

lemma findCookie_spec:
  "findCookie cs n =
     (if n = [] then Undefined
      else (case cookieSpec cs n of None \<Rightarrow> Undefined | Some v \<Rightarrow> Text v))"
proof (induction cs)
  case Nil
  show ?case by (simp add: cookieSpec_def List.map_filter_simps)
next
  case (Cons c cs)
  show ?case
    unfolding findCookie_step
    using Cons by (auto simp: cookieSpec_def List.map_filter_simps split: option.splits)
qed

lemma splitCookie_prefix:
  assumes "splitCookie c = Some (k, v)"
  shows "prefix (k @ ''='') c"
proof -
  from assms have mem: "CHR ''='' \<in> set c" and k: "k = takeWhile (\<lambda>x. x \<noteq> CHR ''='') c"
    by (auto simp: splitCookie_def split: if_splits)
  from mem have "dropWhile (\<lambda>x. x \<noteq> CHR ''='') c \<noteq> []" by auto
  moreover have "hd (dropWhile (\<lambda>x. x \<noteq> CHR ''='') c) = CHR ''=''"
    using mem hd_dropWhile[of "\<lambda>x. x \<noteq> CHR ''=''" c] by auto
  ultimately obtain r where "dropWhile (\<lambda>x. x \<noteq> CHR ''='') c = CHR ''='' # r"
    by (cases "dropWhile (\<lambda>x. x \<noteq> CHR ''='') c") auto
  then have "c = k @ CHR ''='' # r"
    using takeWhile_dropWhile_id[of "\<lambda>x. x \<noteq> CHR ''=''" c] k by simp
  then show ?thesis by (simp add: prefix_def)
qed

lemma cookieSpec_prefix:
  assumes "cookieSpec cs n = Some v"
  shows "list_ex (prefix (n @ ''='')) cs"
proof -
  from assms have "(n, v) \<in> set (List.map_filter splitCookie cs)"
    unfolding cookieSpec_def by (rule map_of_SomeD)
  then obtain c where "c \<in> set cs" and "splitCookie c = Some (n, v)"
    by (auto simp: List.map_filter_def)
  then show ?thesis using splitCookie_prefix by (auto simp: list_ex_iff)
qed

lemma findCookie_absent:
  "\<not> list_ex (prefix (n @ ''='')) cs \<Longrightarrow> findCookie cs n = (Undefined :: 'j extracted)"
  using cookieSpec_prefix[of cs n]
  by (cases "cookieSpec cs n") (auto simp: findCookie_spec)

section \<open>Body extraction\<close>

text \<open>
  C4. A body input declared \<open>Buffer\<close>, on an event with a non-empty body: when the
  event does not flag the body as base64-encoded, extraction throws the \<open>HttpError\<close>
  with status 400; when the flag is set, it returns the bytes decoded from the body.
\<close>

theorem binary_body_extraction:
  assumes "location input = ''body''" and "declaredTypeName input = ''Buffer''"
    and "body event = Some b" and "b \<noteq> []"
  shows "LambdaExtractor_extract S parseJSON fromBase64 event input =
           (if isBase64Encoded event then Inr (Buffer (fromBase64 b))
            else Inl (HttpError 400 ''Expected binary input''))"
  using assms by (simp add: LambdaExtractor_extract_def)

text \<open>The body \<open>aGk=\<close> on both settings of the flag, for every platform.\<close>

theorem binary_body_extraction_witness:
  "\<forall>S. \<forall>parseJSON :: string \<Rightarrow> unit option. \<forall>fromBase64.
     LambdaExtractor_extract S parseJSON fromBase64
        (emptyEvent\<lparr>body := Some ''aGk='', isBase64Encoded := False\<rparr>)
        \<lparr>location = ''body'', name = ''payload'', declaredTypeName = ''Buffer'', required = None\<rparr>
       = Inl (HttpError 400 ''Expected binary input'')
   \<and> LambdaExtractor_extract S parseJSON fromBase64
        (emptyEvent\<lparr>body := Some ''aGk='', isBase64Encoded := True\<rparr>)
        \<lparr>location = ''body'', name = ''payload'', declaredTypeName = ''Buffer'', required = None\<rparr>
       = Inr (Buffer (fromBase64 ''aGk=''))"
proof (intro allI conjI)
  fix S :: StringMethods
    and parseJSON :: "string \<Rightarrow> unit option" and fromBase64 :: "string \<Rightarrow> byte list"
  let ?input = "\<lparr>location = ''body'', name = ''payload'', declaredTypeName = ''Buffer'',
                  required = None\<rparr>"
  have i: "location ?input = ''body''" "declaredTypeName ?input = ''Buffer''" by simp_all
  have off: "body (emptyEvent\<lparr>body := Some ''aGk='', isBase64Encoded := False\<rparr>) = Some ''aGk=''"
    and on: "body (emptyEvent\<lparr>body := Some ''aGk='', isBase64Encoded := True\<rparr>) = Some ''aGk=''"
    and ne: "''aGk='' \<noteq> []"
    by simp_all
  show "LambdaExtractor_extract S parseJSON fromBase64
          (emptyEvent\<lparr>body := Some ''aGk='', isBase64Encoded := False\<rparr>) ?input
        = Inl (HttpError 400 ''Expected binary input'')"
    using binary_body_extraction[OF i off ne, of S parseJSON fromBase64] by simp
  show "LambdaExtractor_extract S parseJSON fromBase64
          (emptyEvent\<lparr>body := Some ''aGk='', isBase64Encoded := True\<rparr>) ?input
        = Inr (Buffer (fromBase64 ''aGk=''))"
    using binary_body_extraction[OF i on ne, of S parseJSON fromBase64] by simp
qed

section \<open>Cookie extraction\<close>

text \<open>
  C7, as amended. For a cookie input, extraction splits each entry of the event's
  cookie list at its first \<open>=\<close> and returns the text after it for the first entry
  whose name equals the input name, and \<open>undefined\<close> when there is none or the event
  has no cookie list; an entry with no \<open>=\<close> or with nothing before its first \<open>=\<close> is
  skipped, so an empty input name gives \<open>undefined\<close>.
\<close>

theorem cookie_extraction:
  assumes "location input = ''cookie''"
  shows "LambdaExtractor_extract S parseJSON fromBase64 event input =
           Inr (case cookies event of
                  None \<Rightarrow> Undefined
                | Some cs \<Rightarrow>
                    if name input = [] then Undefined
                    else (case cookieSpec cs (name input) of
                            None \<Rightarrow> Undefined
                          | Some v \<Rightarrow> Text v))"
  using assms by (simp add: LambdaExtractor_extract_def findCookie_spec split: option.splits)

text \<open>
  The first entry named \<open>a\<close> wins and its text keeps the second \<open>=\<close>; the entries
  \<open>=v\<close> and \<open>zz\<close> are passed over.
\<close>

theorem cookie_extraction_witness:
  "LambdaExtractor_extract asciiStrings (\<lambda>s. None :: unit option) (\<lambda>s. [])
      (emptyEvent\<lparr>cookies := Some [''=v'', ''zz'', ''a=b=c'', ''a=d'']\<rparr>)
      \<lparr>location = ''cookie'', name = ''a'', declaredTypeName = ''string'', required = None\<rparr>
     = Inr (Text ''b=c'')"
proof -
  let ?input = "\<lparr>location = ''cookie'', name = ''a'', declaredTypeName = ''string'',
                  required = None\<rparr>"
  have i: "location ?input = ''cookie''" by simp
  show ?thesis
    using cookie_extraction[OF i, of asciiStrings "\<lambda>s. None :: unit option" "\<lambda>s. []"
        "emptyEvent\<lparr>cookies := Some [''=v'', ''zz'', ''a=b=c'', ''a=d'']\<rparr>"]
    by (simp add: emptyEvent_def cookieSpec_def splitCookie_def List.map_filter_simps)
qed

text \<open>
  C7 as stated fails for the empty input name: the entry \<open>=v\<close> splits at its first
  \<open>=\<close> into an empty name and the text \<open>v\<close>, so the stated rule finds \<open>v\<close>, while
  the loop skips the entry (\<open>eqIdx\<close> is 0) and returns \<open>undefined\<close>.
\<close>

theorem cookie_empty_name_counterexample:
  "LambdaExtractor_extract asciiStrings (\<lambda>s. None :: unit option) (\<lambda>s. [])
      (emptyEvent\<lparr>cookies := Some [''=v'']\<rparr>)
      \<lparr>location = ''cookie'', name = [], declaredTypeName = ''string'', required = None\<rparr>
     = Inr Undefined
   \<and> cookieSpec [''=v''] [] = Some ''v''"
  by (simp add: LambdaExtractor_extract_def emptyEvent_def cookieSpec_def splitCookie_def
      List.map_filter_simps)

section \<open>Absent inputs\<close>

text \<open>
  C8, on the code. For an input that is absent from the event, extraction throws
  nothing, and it returns \<open>undefined\<close> for a cookie and for a body. For a query, path
  or header input it returns what the property read on the plain parameter object
  gives: \<open>undefined\<close> unless the name (the lower-cased name, for a header) is that of
  a member of \<open>Object.prototype\<close>, and that inherited member otherwise. For the
  location \<open>request\<close> it returns the event, and the result never depends on the
  input's \<open>required\<close> flag, which the extractor does not read.
\<close>

theorem absent_input_extraction:
  "(absentInput S event input \<longrightarrow>
      LambdaExtractor_extract S parseJSON fromBase64 event input =
        Inr (if location input = ''query'' \<or> location input = ''path''
             then inheritedOrUndefined (name input)
             else if location input = ''header''
             then inheritedOrUndefined (toLowerCase S (name input))
             else Undefined))
   \<and> (location input = ''request'' \<longrightarrow>
      LambdaExtractor_extract S parseJSON fromBase64 event input = Inr (Request event))
   \<and> LambdaExtractor_extract S parseJSON fromBase64 event (input\<lparr>required := r\<rparr>)
       = LambdaExtractor_extract S parseJSON fromBase64 event input"
proof (intro conjI impI)
  assume a: "absentInput S event input"
  show "LambdaExtractor_extract S parseJSON fromBase64 event input =
        Inr (if location input = ''query'' \<or> location input = ''path''
             then inheritedOrUndefined (name input)
             else if location input = ''header''
             then inheritedOrUndefined (toLowerCase S (name input))
             else Undefined)"
    using a
    by (auto simp: absentInput_def LambdaExtractor_extract_def lookupParam_def findCookie_absent
        split: if_splits option.splits)
next
  assume "location input = ''request''"
  then show "LambdaExtractor_extract S parseJSON fromBase64 event input = Inr (Request event)"
    by (simp add: LambdaExtractor_extract_def)
next
  show "LambdaExtractor_extract S parseJSON fromBase64 event (input\<lparr>required := r\<rparr>)
       = LambdaExtractor_extract S parseJSON fromBase64 event input"
    by (simp add: LambdaExtractor_extract_def split: option.splits)
qed

text \<open>
  On \<open>sessionEvent\<close>, which has no query parameter \<open>constructor\<close>, the query input of
  that name extracts the inherited \<open>constructor\<close>, not \<open>undefined\<close>; the absent query
  input \<open>limit\<close>, the absent cookie \<open>si\<close> and the empty body extract \<open>undefined\<close>.
\<close>

theorem absent_input_extraction_witness:
  "LambdaExtractor_extract asciiStrings (\<lambda>s. None :: unit option) (\<lambda>s. []) sessionEvent
      \<lparr>location = ''query'', name = ''constructor'', declaredTypeName = ''string'',
        required = Some False\<rparr>
     = Inr (Inherited ''constructor'')
   \<and> LambdaExtractor_extract asciiStrings (\<lambda>s. None :: unit option) (\<lambda>s. []) sessionEvent
      \<lparr>location = ''query'', name = ''limit'', declaredTypeName = ''number'', required = Some True\<rparr>
     = Inr Undefined
   \<and> LambdaExtractor_extract asciiStrings (\<lambda>s. None :: unit option) (\<lambda>s. []) sessionEvent
      \<lparr>location = ''cookie'', name = ''si'', declaredTypeName = ''string'', required = Some True\<rparr>
     = Inr Undefined
   \<and> LambdaExtractor_extract asciiStrings (\<lambda>s. None :: unit option) (\<lambda>s. []) sessionEvent
      \<lparr>location = ''body'', name = ''payload'', declaredTypeName = ''Buffer'', required = Some True\<rparr>
     = Inr Undefined"
proof -
  let ?pj = "\<lambda>s::string. None :: unit option" and ?fb = "\<lambda>s::string. [] :: byte list"
  let ?q1 = "\<lparr>location = ''query'', name = ''constructor'', declaredTypeName = ''string'',
               required = Some False\<rparr>"
  let ?q2 = "\<lparr>location = ''query'', name = ''limit'', declaredTypeName = ''number'',
               required = Some True\<rparr>"
  let ?c = "\<lparr>location = ''cookie'', name = ''si'', declaredTypeName = ''string'',
              required = Some True\<rparr>"
  let ?b = "\<lparr>location = ''body'', name = ''payload'', declaredTypeName = ''Buffer'',
              required = Some True\<rparr>"
  have abs: "absentInput asciiStrings sessionEvent ?q1" "absentInput asciiStrings sessionEvent ?q2"
    "absentInput asciiStrings sessionEvent ?c" "absentInput asciiStrings sessionEvent ?b"
    by (simp_all add: absentInput_def sessionEvent_def emptyEvent_def)
  have limit: "inheritedOrUndefined ''limit'' = (Undefined :: unit extracted)"
    by (simp add: inheritedOrUndefined_def objectPrototypeKeys_def)
  have q1: "LambdaExtractor_extract asciiStrings ?pj ?fb sessionEvent ?q1 = Inr (Inherited ''constructor'')"
    using conjunct1[OF absent_input_extraction[of asciiStrings sessionEvent ?q1 ?pj ?fb]] abs(1)
    by (simp add: constructor_inherited)
  have q2: "LambdaExtractor_extract asciiStrings ?pj ?fb sessionEvent ?q2 = Inr Undefined"
    using conjunct1[OF absent_input_extraction[of asciiStrings sessionEvent ?q2 ?pj ?fb]] abs(2)
    by (simp add: limit)
  have c: "LambdaExtractor_extract asciiStrings ?pj ?fb sessionEvent ?c = Inr Undefined"
    using conjunct1[OF absent_input_extraction[of asciiStrings sessionEvent ?c ?pj ?fb]] abs(3)
    by simp
  have b: "LambdaExtractor_extract asciiStrings ?pj ?fb sessionEvent ?b = Inr Undefined"
    using conjunct1[OF absent_input_extraction[of asciiStrings sessionEvent ?b ?pj ?fb]] abs(4)
    by simp
  show ?thesis using q1 q2 c b by blast
qed

section \<open>Header extraction\<close>

text \<open>
  C10, on the code. For a header input, the declared name is lower-cased and read as
  a property of the event's header object (of an empty object when the event has
  none): the result is the value stored under the lower-cased name when there is
  one; without one it is \<open>undefined\<close>, unless the lower-cased name is that of a
  member of \<open>Object.prototype\<close>, and then it is the inherited member.
\<close>

theorem header_lookup_lowercased:
  assumes "location input = ''header''"
  shows "LambdaExtractor_extract S parseJSON fromBase64 event input =
           Inr (case (case headers event of None \<Rightarrow> Map.empty | Some h \<Rightarrow> h)
                       (toLowerCase S (name input)) of
                  Some v \<Rightarrow> Text v
                | None \<Rightarrow> inheritedOrUndefined (toLowerCase S (name input)))"
  using assms
  by (simp add: LambdaExtractor_extract_def lookupParam_def split: option.splits)

text \<open>
  \<open>X-Trace\<close> reads the value stored under \<open>x-trace\<close>. \<open>Constructor\<close>, on an event
  whose header object is empty, extracts the \<open>constructor\<close> that the object inherits,
  although the headers have no such key.
\<close>

theorem header_lookup_lowercased_witness:
  "LambdaExtractor_extract asciiStrings (\<lambda>s. None :: unit option) (\<lambda>s. []) sessionEvent
      \<lparr>location = ''header'', name = ''X-Trace'', declaredTypeName = ''string'', required = None\<rparr>
     = Inr (Text ''t-1'')
   \<and> LambdaExtractor_extract asciiStrings (\<lambda>s. None :: unit option) (\<lambda>s. [])
      (emptyEvent\<lparr>headers := Some Map.empty\<rparr>)
      \<lparr>location = ''header'', name = ''Constructor'', declaredTypeName = ''string'', required = None\<rparr>
     = Inr (Inherited ''constructor'')"
proof -
  let ?pj = "\<lambda>s::string. None :: unit option" and ?fb = "\<lambda>s::string. [] :: byte list"
  let ?i1 = "\<lparr>location = ''header'', name = ''X-Trace'', declaredTypeName = ''string'',
               required = None\<rparr>"
  let ?i2 = "\<lparr>location = ''header'', name = ''Constructor'', declaredTypeName = ''string'',
               required = None\<rparr>"
  have l1: "location ?i1 = ''header''" and l2: "location ?i2 = ''header''" by simp_all
  have hd: "headers sessionEvent = Some [''x-trace'' \<mapsto> ''t-1'']"
    by (simp add: sessionEvent_def emptyEvent_def)
  have a: "LambdaExtractor_extract asciiStrings ?pj ?fb sessionEvent ?i1 = Inr (Text ''t-1'')"
    using header_lookup_lowercased[OF l1, of asciiStrings ?pj ?fb sessionEvent]
    by (simp add: hd asciiStrings_def asciiLowerCase_X_Trace)
  have b: "LambdaExtractor_extract asciiStrings ?pj ?fb (emptyEvent\<lparr>headers := Some Map.empty\<rparr>) ?i2
         = Inr (Inherited ''constructor'')"
    using header_lookup_lowercased[OF l2, of asciiStrings ?pj ?fb
        "emptyEvent\<lparr>headers := Some Map.empty\<rparr>"]
    by (simp add: asciiStrings_def asciiLowerCase_Constructor constructor_inherited)
  show ?thesis using a b by blast
qed

text \<open>
  What holds of the lower-casing, for string methods whose \<open>toLowerCase\<close> leaves a
  lower-cased string as it is: two header inputs whose names agree after
  lower-casing extract the same, and an entry of the header object stored under a key
  that lower-casing would change is never read.
\<close>

lemma header_names_differing_in_case:
  assumes "location input = ''header''" and "location input' = ''header''"
    and "toLowerCase S (name input') = toLowerCase S (name input)"
  shows "LambdaExtractor_extract S parseJSON fromBase64 event input'
       = LambdaExtractor_extract S parseJSON fromBase64 event input"
  using assms by (simp add: LambdaExtractor_extract_def)

lemma header_key_with_capitals_never_read:
  assumes "location input = ''header''"
    and idem: "\<And>s. toLowerCase S (toLowerCase S s) = toLowerCase S s"
    and k: "toLowerCase S k \<noteq> k"
  shows "LambdaExtractor_extract S parseJSON fromBase64 (event\<lparr>headers := Some (h(k \<mapsto> v))\<rparr>) input
       = LambdaExtractor_extract S parseJSON fromBase64 (event\<lparr>headers := Some h\<rparr>) input"
proof -
  have "toLowerCase S (name input) \<noteq> k"
  proof
    assume e: "toLowerCase S (name input) = k"
    have "toLowerCase S k = toLowerCase S (toLowerCase S (name input))" by (simp add: e)
    also have "\<dots> = toLowerCase S (name input)" by (rule idem)
    finally show False using k e by simp
  qed
  then show ?thesis
    using assms(1) by (simp add: LambdaExtractor_extract_def lookupParam_def)
qed

section \<open>Structured bodies\<close>

text \<open>
  A non-empty body declared \<open>string\<close> is returned as it is; one declared neither
  \<open>string\<close> nor \<open>Buffer\<close> is handed to \<open>JSON.parse\<close>.
\<close>

lemma string_and_json_body_extraction:
  assumes "location input = ''body''" and "body event = Some b" and "b \<noteq> []"
  shows "declaredTypeName input = ''string'' \<Longrightarrow>
           LambdaExtractor_extract S parseJSON fromBase64 event input = Inr (Text b)"
    and "declaredTypeName input \<noteq> ''string'' \<Longrightarrow> declaredTypeName input \<noteq> ''Buffer'' \<Longrightarrow>
           LambdaExtractor_extract S parseJSON fromBase64 event input
             = (case parseJSON b of None \<Rightarrow> Inl SyntaxError | Some j \<Rightarrow> Inr (Parsed j))"
  using assms by (simp_all add: LambdaExtractor_extract_def)

text \<open>
  C5, on a malformed body. For a body input declared neither \<open>string\<close> nor \<open>Buffer\<close>
  whose non-empty body \<open>JSON.parse\<close> rejects, extraction throws the parser's
  \<open>SyntaxError\<close>; it is not an \<open>HttpError\<close>, of status 400 or any other, unlike what
  the \<open>Buffer\<close> branch throws.
\<close>

theorem malformed_json_body_raises_SyntaxError:
  assumes "location input = ''body''" and "body event = Some b" and "b \<noteq> []"
    and "declaredTypeName input \<noteq> ''string''" and "declaredTypeName input \<noteq> ''Buffer''"
    and "parseJSON b = None"
  shows "LambdaExtractor_extract S parseJSON fromBase64 event input = Inl SyntaxError
       \<and> LambdaExtractor_extract S parseJSON fromBase64 event input \<noteq> Inl (HttpError code msg)"
  using assms by (simp add: LambdaExtractor_extract_def)

text \<open>The body \<open>{\<close>, declared \<open>Order\<close>, with a parser that rejects it.\<close>

theorem malformed_json_body_witness:
  "LambdaExtractor_extract asciiStrings (\<lambda>s. None :: unit option) (\<lambda>s. [])
      (emptyEvent\<lparr>body := Some ''{''\<rparr>)
      \<lparr>location = ''body'', name = ''payload'', declaredTypeName = ''Order'', required = None\<rparr>
     = Inl SyntaxError"
proof -
  let ?input = "\<lparr>location = ''body'', name = ''payload'', declaredTypeName = ''Order'', required = None\<rparr>"
  have h: "location ?input = ''body''" "body (emptyEvent\<lparr>body := Some ''{''\<rparr>) = Some ''{''"
    "''{'' \<noteq> []" "declaredTypeName ?input \<noteq> ''string''" "declaredTypeName ?input \<noteq> ''Buffer''"
    "(\<lambda>s::string. None :: unit option) ''{'' = None"
    by simp_all
  show ?thesis
    using malformed_json_body_raises_SyntaxError[OF h, of asciiStrings "\<lambda>s. []" 400 "''x''"]
    by simp
qed

section \<open>Content-Type in the two serialisations\<close>

text \<open>
  What the two adapters do with the headers of any \<open>RuntimeResult\<close>:
  \<open>sendResultResponse\<close> sends \<open>application/json\<close> unless the result has a truthy
  \<open>Content-Type\<close> entry, and \<open>toLambdaResult\<close> hands the headers on as they are.
\<close>

lemma sendResultResponse_content_type:
  "writtenHeaders (sendResultResponse result) ''Content-Type'' =
     Some (Single (case resultHeaders result ''Content-Type'' of
                     None \<Rightarrow> ''application/json''
                   | Some v \<Rightarrow> if truthy v then toString v else ''application/json''))"
  by (simp add: sendResultResponse_def Let_def split: option.splits)


text \<open>
  An explicit empty \<open>Content-Type\<close> that reaches \<open>sendResultResponse\<close> is replaced
  by the default, whatever else the result holds.
\<close>

lemma sendResultResponse_empty_content_type:
  assumes "resultHeaders result ''Content-Type'' = Some (PString [])"
  shows "writtenHeaders (sendResultResponse result) ''Content-Type''
           = Some (Single ''application/json'')"
  using assms by (simp add: sendResultResponse_content_type)




section \<open>Requests that match no route\<close>

lemma routesByPath_usersApp:
  "routesByPath asciiStrings usersApp =
     [''GET /users'' \<mapsto> \<lparr> controllerManager = usersController, route = usersRoute \<rparr>]"
  by (simp add: routesByPath_def usersApp_def usersController_def lambdaRouteKey_def usersRoute_def
      asciiStrings_def asciiUpperCase_get)

lemma registeredPaths_usersApp: "registeredPaths usersApp = [''get//users'']"
  by (simp add: registeredPaths_def usersApp_def usersController_def usersRoute_def)

text \<open>A registered route key reaches \<open>processRequest\<close>, and its result is serialised.\<close>

lemma registered_route_reaches_processRequest:
  "createAwsLambdaHandler asciiStrings parseJSON fromBase64 toBase64 (\<lambda>ev ex r c s. Inr okResult)
       usersApp emptyEvent
     = Inr (toLambdaResult toBase64 okResult)"
  by (simp add: createAwsLambdaHandler_def routesByPath_usersApp emptyEvent_def)

text \<open>
  C2, on the two adapters. For a request whose method and path the matcher does not
  know, the listener of the node adapter answers with status 404, content type
  \<open>text/plain\<close> and the description \<open>statusCodeToDesc[404]\<close>. For an event whose
  route key is not in \<open>routesByPath\<close>, the handler of the lambda adapter produces no
  outcome at all: it throws a \<open>TypeError\<close> before \<open>processRequest\<close> is called.
\<close>

theorem unmatched_route_node_404_lambda_fault:
  assumes "url request = Some u" and "u \<noteq> []" and "URL_pathname D u = Some p"
    and "RouteMatcher_match D (registeredPaths app) (nodeRoutePath S request p) = None"
    and "routesByPath S app (routeKey event) = None"
  shows "createRequestListener S D app request = Inr (sendErrorResponse (statusCodeToDesc D) 404)
       \<and> createAwsLambdaHandler S parseJSON fromBase64 toBase64 processRequest app event
           = Inl TypeError"
  using assms by (simp add: createRequestListener_def createAwsLambdaHandler_def)

text \<open>
  \<open>GET /orders\<close> against the application that registers \<open>GET /users\<close> only, for
  every \<open>processRequest\<close>.
\<close>

theorem unmatched_route_witness:
  "\<forall>processRequest.
     createRequestListener asciiStrings literalDeps usersApp
        \<lparr> url = Some ''/orders'', reqMethod = Some ''GET'', reqHeaders = Map.empty \<rparr>
       = Inr \<lparr> writtenStatus = 404,
               writtenHeaders = [''Content-Type'' \<mapsto> Single ''text/plain''],
               writtenBody = TextBody ''Not Found'' \<rparr>
   \<and> createAwsLambdaHandler asciiStrings (\<lambda>s. None :: unit option) (\<lambda>s. []) (\<lambda>bs. [])
        processRequest usersApp (emptyEvent\<lparr>routeKey := ''GET /orders''\<rparr>)
       = Inl TypeError"
proof
  fix processRequest :: "Event \<Rightarrow> (RuntimeInput \<Rightarrow> error + unit extracted) \<Rightarrow> RuntimeRoute
      \<Rightarrow> RuntimeController \<Rightarrow> unit \<Rightarrow> error + RuntimeResult"
  let ?request = "\<lparr> url = Some ''/orders'', reqMethod = Some ''GET'', reqHeaders = Map.empty \<rparr>"
  have h: "url ?request = Some ''/orders''" "''/orders'' \<noteq> []"
    "URL_pathname literalDeps ''/orders'' = Some ''/orders''"
    "RouteMatcher_match literalDeps (registeredPaths usersApp)
       (nodeRoutePath asciiStrings ?request ''/orders'') = None"
    "routesByPath asciiStrings usersApp (routeKey (emptyEvent\<lparr>routeKey := ''GET /orders''\<rparr>)) = None"
    by (simp_all add: literalDeps_def registeredPaths_usersApp nodeRoutePath_def asciiStrings_def
        asciiLowerCase_GET routesByPath_usersApp[unfolded asciiStrings_def])
  show "createRequestListener asciiStrings literalDeps usersApp ?request
       = Inr \<lparr> writtenStatus = 404,
               writtenHeaders = [''Content-Type'' \<mapsto> Single ''text/plain''],
               writtenBody = TextBody ''Not Found'' \<rparr>
   \<and> createAwsLambdaHandler asciiStrings (\<lambda>s. None :: unit option) (\<lambda>s. []) (\<lambda>bs. [])
        processRequest usersApp (emptyEvent\<lparr>routeKey := ''GET /orders''\<rparr>)
       = Inl TypeError"
    using unmatched_route_node_404_lambda_fault[OF h, of "\<lambda>s. None :: unit option" "\<lambda>s. []"
        "\<lambda>bs. []" processRequest]
    by (simp add: sendErrorResponse_def literalDeps_def)
qed

section \<open>Getting the controller instance\<close>

text \<open>A call awaited on its own always settles.\<close>

lemma getInstance_finishes: "\<exists>r. snd (getInstance w m) = Finished r"
  by (simp add: getInstance_def eval_nat_numeral Let_def split: option.splits)

text \<open>
  When nothing fails and each call is awaited before the next is made, the first call
  constructs instance 0 and runs its init hook once, and every later call returns
  instance 0 and leaves the manager as it is.
\<close>

lemma getInstance_sequential:
  assumes "initMethodName rt = Some hook" "importOk w" "exportsClass w" "ctorOk w 0" "initOk w 0"
  shows "snd (getInstance w (newControllerInstanceManager rt)) = Finished (Returned (Some 0))"
    and "getInstance w' (fst (getInstance w (newControllerInstanceManager rt)))
           = (fst (getInstance w (newControllerInstanceManager rt)), Finished (Returned (Some 0)))"
    and "constructions (fst (getInstance w (newControllerInstanceManager rt))) = 1"
    and "initRuns (fst (getInstance w (newControllerInstanceManager rt))) = 1"
  using assms
  by (simp_all add: getInstance_def newControllerInstanceManager_def eval_nat_numeral Let_def
      constructions_def initRuns_def)

text \<open>
  C3, on a failing init hook. For a controller with an init hook whose first run
  fails, the first call of \<open>getInstance\<close> throws; the instance it constructed stays
  in \<open>this.instance\<close> with \<open>initialized\<close> still false, and the next call, whatever
  the init hook would do then, returns that instance at once: the manager is unchanged
  by it and the init hook has run once in all, so initialization is not re-attempted.
\<close>

theorem failed_init_is_not_retried:
  assumes "initMethodName rt = Some hook" and "importOk w" and "exportsClass w"
    and "ctorOk w 0" and "\<not> initOk w 0"
  shows "snd (getInstance w (newControllerInstanceManager rt)) = Finished (Threw InitHookFailed)
       \<and> getInstance w' (fst (getInstance w (newControllerInstanceManager rt)))
           = (fst (getInstance w (newControllerInstanceManager rt)), Finished (Returned (Some 0)))
       \<and> \<not> initialized (fst (getInstance w (newControllerInstanceManager rt)))
       \<and> initRuns (fst (getInstance w (newControllerInstanceManager rt))) = 1"
  using assms
  by (simp add: getInstance_def newControllerInstanceManager_def eval_nat_numeral Let_def
      constructions_def initRuns_def)

text \<open>The init hook of the users controller fails once and would succeed afterwards.\<close>

theorem failed_init_is_not_retried_witness:
  "snd (getInstance (okWorld\<lparr>initOk := (\<lambda>i. False)\<rparr>)
          (newControllerInstanceManager usersController))
     = Finished (Threw InitHookFailed)
   \<and> snd (getInstance okWorld
            (fst (getInstance (okWorld\<lparr>initOk := (\<lambda>i. False)\<rparr>)
                    (newControllerInstanceManager usersController))))
     = Finished (Returned (Some 0))
   \<and> initRuns (fst (getInstance okWorld
            (fst (getInstance (okWorld\<lparr>initOk := (\<lambda>i. False)\<rparr>)
                    (newControllerInstanceManager usersController))))) = 1"
proof -
  have h: "initMethodName usersController = Some ''init''"
    "importOk (okWorld\<lparr>initOk := (\<lambda>i. False)\<rparr>)" "exportsClass (okWorld\<lparr>initOk := (\<lambda>i. False)\<rparr>)"
    "ctorOk (okWorld\<lparr>initOk := (\<lambda>i. False)\<rparr>) 0" "\<not> initOk (okWorld\<lparr>initOk := (\<lambda>i. False)\<rparr>) 0"
    by (simp_all add: usersController_def okWorld_def)
  show ?thesis
    using failed_init_is_not_retried[OF h, of okWorld] by simp
qed

text \<open>
  C1, on two callers. Two calls of \<open>getInstance\<close> made before either has passed its
  first \<open>await\<close>, resumed in turn, with nothing failing: both pass the test
  \<open>!this.instance\<close>, so the constructor runs twice and the init hook runs twice (once
  on each object); both calls return the second object.
\<close>

theorem concurrent_getInstance_constructs_twice:
  assumes "initMethodName rt = Some hook" and "importOk w" and "exportsClass w"
    and "ctorOk w 0" and "ctorOk w 1" and "initOk w 0" and "initOk w 1"
  shows "snd (runSchedule w [0, 1, 0, 1, 0, 1, 0, 1, 0, 1]
                (newControllerInstanceManager rt, [Called, Called]))
           = [Finished (Returned (Some 1)), Finished (Returned (Some 1))]
       \<and> constructions (fst (runSchedule w [0, 1, 0, 1, 0, 1, 0, 1, 0, 1]
                (newControllerInstanceManager rt, [Called, Called]))) = 2
       \<and> initRuns (fst (runSchedule w [0, 1, 0, 1, 0, 1, 0, 1, 0, 1]
                (newControllerInstanceManager rt, [Called, Called]))) = 2"
  using assms
  by (simp add: runSchedule_def schedStep_def newControllerInstanceManager_def Let_def
      constructions_def initRuns_def)

text \<open>The users controller in the world where nothing fails.\<close>

theorem concurrent_getInstance_constructs_twice_witness:
  "snd (runSchedule okWorld [0, 1, 0, 1, 0, 1, 0, 1, 0, 1]
          (newControllerInstanceManager usersController, [Called, Called]))
     = [Finished (Returned (Some 1)), Finished (Returned (Some 1))]
   \<and> constructions (fst (runSchedule okWorld [0, 1, 0, 1, 0, 1, 0, 1, 0, 1]
          (newControllerInstanceManager usersController, [Called, Called]))) = 2
   \<and> initRuns (fst (runSchedule okWorld [0, 1, 0, 1, 0, 1, 0, 1, 0, 1]
          (newControllerInstanceManager usersController, [Called, Called]))) = 2"
proof -
  have h: "initMethodName usersController = Some ''init''"
    "importOk okWorld" "exportsClass okWorld" "ctorOk okWorld 0" "ctorOk okWorld 1"
    "initOk okWorld 0" "initOk okWorld 1"
    by (simp_all add: usersController_def okWorld_def)
  show ?thesis
    by (rule concurrent_getInstance_constructs_twice[OF h])
qed


end
